theory Spec2Isabelle
  imports Main
begin

section \<open>Python values shared by both modules\<close>

text \<open>
  The two modules are Python 2. An exception is a value of \<open>py_error\<close>; a name that
  may or may not be bound when it is read is a value of \<open>'a local\<close>, and reading an
  \<open>Unbound\<close> one raises \<open>NameError\<close> (\<open>UnboundLocalError\<close> is a subclass of it).
\<close>

datatype py_error = NameError | IndexError

datatype 'a local = Unbound | Bound 'a

text \<open>A node of the concept network. Nodes are compared by identity; a node is its name.\<close>

datatype slipnode = Slipnode (name: string)

text \<open>The class of a workspace object, as \<open>type(obj)\<close> returns it.\<close>

datatype obj_type = Letter | Group

text \<open>A workspace string; only its \<open>length\<close> attribute is read here.\<close>

record wstring =
  length_str :: int

text \<open>
  A concept mapping. The class \<open>Mapping\<close> is not part of the two modules; the fields
  are the attributes the two modules read.
\<close>

record mapping =
  description_type1 :: slipnode
  description_type2 :: slipnode
  descriptor1 :: slipnode
  descriptor2 :: slipnode
  label :: slipnode
  relevant :: bool

text \<open>
  A workspace object (a letter or a group). Python compares objects by identity, which
  \<open>ident\<close> stands for. Its bonds and its correspondence are references into the
  workspace (see \<open>heap\<close> below); \<open>None\<close> is Python's \<open>None\<close>.
\<close>

record wobject =
  ident :: nat
  obj_type :: obj_type
  string :: wstring
  string_number :: int
  left_string_position :: int
  right_string_position :: int
  left_bond :: "nat option"
  right_bond :: "nat option"
  correspondence :: "nat option"
  leftmost_in_string :: bool
  rightmost_in_string :: bool

text \<open>A group, as far as a bond or the builder reads it.\<close>

record wgroup =
  group_ident :: nat
  total_strength :: int

text \<open>
  The attributes that the base class leaves on a new structure. \<open>Structure.__init__\<close>
  is not part of the two modules, so its result is a parameter of \<open>Bond\<close>.
\<close>

record structure_base =
  init_proposal_level :: int
  init_group :: "wgroup option"

section \<open>Module \<open>bond\<close>\<close>

record bond =
  proposal_level :: int
  group :: "wgroup option"
  from_object :: wobject
  to_object :: wobject
  structure_category :: string
  bond_category :: slipnode
  direction_category :: "string option"
  string :: wstring
  left_string_position :: int
  right_string_position :: int
  bond_facet :: slipnode
  from_object_descriptor :: slipnode
  to_object_descriptor :: slipnode
  left_object :: wobject
  right_object :: wobject

text \<open>\<open>Bond.__init__\<close>, in the order of its assignments.\<close>

definition Bond ::
  "structure_base \<Rightarrow> wobject \<Rightarrow> wobject \<Rightarrow> slipnode \<Rightarrow> slipnode \<Rightarrow> slipnode \<Rightarrow> slipnode \<Rightarrow> bond"
where
  "Bond state from_obj to_obj category facet from_descriptor to_descriptor =
     \<lparr> proposal_level = init_proposal_level state,
       group = init_group state,
       from_object = from_obj,
       to_object = to_obj,
       structure_category = ''bond'',
       bond_category = category,
       direction_category =
         (if name category \<noteq> ''sameness''
          then (if wobject.left_string_position from_obj < wobject.left_string_position to_obj
                then Some ''left'' else Some ''right'')
          else None),
       string = wobject.string from_obj,
       left_string_position =
         min (wobject.left_string_position from_obj) (wobject.left_string_position to_obj),
       right_string_position =
         min (wobject.right_string_position from_obj) (wobject.right_string_position to_obj),
       bond_facet = facet,
       from_object_descriptor = from_descriptor,
       to_object_descriptor = to_descriptor,
       left_object =
         (if wobject.left_string_position from_obj < wobject.left_string_position to_obj
          then from_obj else to_obj),
       right_object =
         (if wobject.left_string_position from_obj < wobject.left_string_position to_obj
          then to_obj else from_obj) \<rparr>"

text \<open>\<open>Bond.__eq__\<close>: four attributes are compared, the others are not read.\<close>

definition bond_eq :: "bond \<Rightarrow> bond \<Rightarrow> bool" where
  "bond_eq self other \<longleftrightarrow>
     from_object self = from_object other \<and>
     to_object self = to_object other \<and>
     bond_category self = bond_category other \<and>
     direction_category self = direction_category other"

definition is_proposed :: "bond \<Rightarrow> bool" where
  "is_proposed self \<longleftrightarrow> bond.proposal_level self < 3"

definition is_leftmost_in_string :: "bond \<Rightarrow> bool" where
  "is_leftmost_in_string self \<longleftrightarrow> bond.left_string_position self = 0"

definition is_rightmost_in_string :: "bond \<Rightarrow> bool" where
  "is_rightmost_in_string self \<longleftrightarrow>
     bond.right_string_position self = 1 - length_str (bond.string self)"

definition are_members :: "bond \<Rightarrow> wobject \<Rightarrow> wobject \<Rightarrow> bool" where
  "are_members self object1 object2 \<longleftrightarrow>
     (from_object self = object1 \<or> to_object self = object1) \<and>
     (from_object self = object2 \<or> to_object self = object2)"

definition importance :: "bond \<Rightarrow> int" where
  "importance self = (if name (bond_category self) = ''sameness'' then 100 else 50)"

text \<open>
  \<open>Bond.happiness\<close> tests the attribute \<open>self.group\<close> and then reads the bare name
  \<open>group\<close>. That name is neither a local of the method nor bound in module \<open>bond\<close>
  (which binds \<open>Structure\<close> and \<open>Bond\<close> only), nor a builtin.
\<close>

definition global_group :: "wgroup local" where
  "global_group = Unbound"

definition happiness :: "bond \<Rightarrow> py_error + int" where
  "happiness self =
     (case bond.group self of
        Some _ \<Rightarrow> (case global_group of
                     Unbound \<Rightarrow> Inl NameError
                   | Bound g \<Rightarrow> Inr (total_strength g))
      | None \<Rightarrow> Inr 0)"

definition unhappiness :: "bond \<Rightarrow> py_error + int" where
  "unhappiness self =
     (case happiness self of Inl e \<Rightarrow> Inl e | Inr h \<Rightarrow> Inr (100 - h))"

subsection \<open>Incompatible correspondences of a bond\<close>

text \<open>
  A correspondence, as far as the two modules read it. The class is not part of them.
\<close>

record correspondence =
  corr_ident :: nat
  object1 :: wobject
  object2 :: wobject
  concept_mappings :: "mapping list"
  letter_span :: int

text \<open>
  The workspace resolves the references that objects hold: \<open>obj.left_bond\<close>,
  \<open>obj.right_bond\<close> and \<open>obj.correspondence\<close>.
\<close>

record heap =
  bond_at :: "nat \<Rightarrow> bond option"
  correspondence_at :: "nat \<Rightarrow> correspondence option"

definition deref_correspondence :: "heap \<Rightarrow> wobject \<Rightarrow> correspondence option" where
  "deref_correspondence h obj =
     (case wobject.correspondence obj of None \<Rightarrow> None | Some r \<Rightarrow> correspondence_at h r)"

definition deref_left_bond :: "heap \<Rightarrow> wobject \<Rightarrow> bond option" where
  "deref_left_bond h obj = (case left_bond obj of None \<Rightarrow> None | Some r \<Rightarrow> bond_at h r)"

definition deref_right_bond :: "heap \<Rightarrow> wobject \<Rightarrow> bond option" where
  "deref_right_bond h obj = (case right_bond obj of None \<Rightarrow> None | Some r \<Rightarrow> bond_at h r)"

text \<open>
  \<open>Correspondence.other_object\<close> is not part of the two modules: it is taken to
  return the endpoint that is not the argument.
\<close>

definition other_object :: "correspondence \<Rightarrow> wobject \<Rightarrow> wobject" where
  "other_object c obj = (if obj = object1 c then object2 c else object1 c)"

definition plato_string_position_category :: slipnode where
  "plato_string_position_category = Slipnode ''plato_string_position_category''"

text \<open>
  What a block of statements does: it raises, it returns from the enclosing function
  with a value, or it falls through to the next statement with its locals.
\<close>

datatype ('r, 'a) flow = Raises py_error | Returns 'r | Continues 'a

text \<open>
  The loop over the concept mappings binds the local
  \<open>string_position_category_concept_mapping\<close> to the last mapping whose first
  description type is the string-position category, and leaves it as it was when there
  is none.
\<close>

fun bind_string_position_mapping :: "mapping list \<Rightarrow> mapping local \<Rightarrow> mapping local" where
  "bind_string_position_mapping [] v = v"
| "bind_string_position_mapping (cm # cms) v =
     bind_string_position_mapping cms
       (if description_type1 cm = plato_string_position_category then Bound cm else v)"

text \<open>
  Two names that the method reads are bound nowhere: the misspelt
  \<open>string_position_cateogry_conept_mapping\<close>, tested right after the loop, and the
  class \<open>Mapping\<close>, which module \<open>bond\<close> does not import. The second stands here for
  the test \<open>is_incompatible_concept_mapping\<close> of the mapping it would build from the
  two direction categories.
\<close>

definition string_position_cateogry_conept_mapping :: "mapping local" where
  "string_position_cateogry_conept_mapping = Unbound"

definition global_Mapping :: "(string option \<Rightarrow> string option \<Rightarrow> mapping \<Rightarrow> bool) local" where
  "global_Mapping = Unbound"

text \<open>
  One end of the bond. The method holds this block twice, once under
  \<open>if self.is_leftmost_in_string()\<close> with \<open>self.left_object\<close> and once under
  \<open>if self.is_rightmost_in_string()\<close> with \<open>self.right_object\<close>; the two copies
  differ in nothing else, and the endpoint is the parameter \<open>end_object\<close>. The locals
  that survive the block are the result list and the mapping bound by the loop.
\<close>

definition end_block ::
  "heap \<Rightarrow> bond \<Rightarrow> wobject \<Rightarrow> correspondence list \<times> mapping local \<Rightarrow>
   (correspondence list option, correspondence list \<times> mapping local) flow"
where
  "end_block h self end_object locals =
     (case deref_correspondence h end_object of
        None \<Rightarrow> Returns None
      | Some c \<Rightarrow>
          (let spc = bind_string_position_mapping (concept_mappings c) (snd locals) in
           case string_position_cateogry_conept_mapping of
             Unbound \<Rightarrow> Raises NameError
           | Bound _ \<Rightarrow>
               (let other = other_object c end_object;
                    other_bond =
                      (if leftmost_in_string other then Some (deref_right_bond h other)
                       else if rightmost_in_string other then Some (deref_left_bond h other)
                       else None)
                in case other_bond of
                     None \<Rightarrow> Returns None
                   | Some None \<Rightarrow> Returns None
                   | Some (Some ob) \<Rightarrow>
                       (if direction_category ob = None \<or> direction_category ob = Some []
                        then Returns None
                        else case global_Mapping of
                               Unbound \<Rightarrow> Raises NameError
                             | Bound incompatible \<Rightarrow>
                                 (case spc of
                                    Unbound \<Rightarrow> Raises NameError
                                  | Bound m \<Rightarrow>
                                      Continues
                                        (if incompatible (direction_category self)
                                              (direction_category ob) m
                                         then fst locals @ [c] else fst locals,
                                         spc))))))"

text \<open>
  \<open>Bond.get_incompatible_correspondences\<close>. \<open>Inr None\<close> is a bare \<open>return\<close>
  (Python's \<open>None\<close>), \<open>Inr (Some cs)\<close> the final \<open>return incompatible_correspondences\<close>.
\<close>

definition get_incompatible_correspondences ::
  "heap \<Rightarrow> bond \<Rightarrow> py_error + correspondence list option"
where
  "get_incompatible_correspondences h self =
     (case (if is_leftmost_in_string self
            then end_block h self (left_object self) ([], Unbound)
            else Continues ([], Unbound)) of
        Raises e \<Rightarrow> Inl e
      | Returns r \<Rightarrow> Inr r
      | Continues locals \<Rightarrow>
          (case (if is_rightmost_in_string self
                 then end_block h self (right_object self) locals
                 else Continues locals) of
             Raises e \<Rightarrow> Inl e
           | Returns r \<Rightarrow> Inr r
           | Continues locals' \<Rightarrow> Inr (Some (fst locals'))))"

section \<open>Module \<open>coderack.codelets.correspondence\<close>\<close>

text \<open>
  A codelet's \<open>run\<close> reads the workspace and calls methods that change it. Neither the
  workspace nor the base class \<open>Codelet\<close> is part of the two modules, so what \<open>run\<close>
  does to them is recorded as the list of the mutating calls it makes, in order
  (\<open>action\<close>), and what it reads from them is a field of the record \<open>env\<close> below.
\<close>

record wrule =
  rule_ident :: nat

record description =
  description_type :: slipnode
  descriptor :: slipnode

record codelet =
  codelet_name :: string
  urgency :: int

text \<open>An element of the list of opponents handed to \<open>fight_it_out\<close>.\<close>

datatype wstructure =
    A_correspondence correspondence
  | A_bond bond
  | A_group wgroup
  | A_rule wrule
  | Py_None

datatype action =
    Delete_proposed_correspondence correspondence
  | Add_activation slipnode
  | Add_concept_mappings correspondence "mapping list"
  | Fight_it_out correspondence int "wstructure list" int
  | Break_correspondence correspondence
  | Break_bond bond
  | Break_group wgroup
  | Build_bond bond
  | Build_group wobject
  | Break_rule wrule
  | Build_correspondence correspondence
  | Propose_correspondence wobject wobject "mapping list" bool

text \<open>
  What the codelets read. A coin flip is a field as well: \<open>fight_it_out\<close> takes the
  actions done so far, so that two fights with the same arguments may end differently,
  and \<open>slippability_coin i m\<close> is the flip for the mapping \<open>m\<close> at index \<open>i\<close> of the
  loop, that is \<open>toolbox.flip_coin\<close> of the temperature-adjusted \<open>slippability / 100\<close>.
\<close>

record env =
  arguments :: "correspondence \<times> bool"
  objects :: "wobject list"
  flipped_version :: "wobject \<Rightarrow> wobject"
  is_group_present :: "wobject \<Rightarrow> wgroup option"
  correspondence_present :: "correspondence \<Rightarrow> correspondence option"
  mapping_present :: "correspondence \<Rightarrow> mapping \<Rightarrow> bool"
  incompatible_corresondences :: "correspondence \<Rightarrow> correspondence list"
  incompatible_bond :: "correspondence \<Rightarrow> bond option"
  incompatible_rule :: "correspondence \<Rightarrow> wrule option"
  self_rule :: wrule
  fight_it_out :: "action list \<Rightarrow> correspondence \<Rightarrow> int \<Rightarrow> wstructure list \<Rightarrow> int \<Rightarrow> bool"
  group_bonds :: "wgroup \<Rightarrow> bond list"
  object_bonds :: "wobject \<Rightarrow> bond list"
  initial_choice :: wobject
  target_choice :: wobject
  relative_importance_choice :: wobject
  spans_whole_string :: "wobject \<Rightarrow> bool"
  relevant_descriptions :: "wobject \<Rightarrow> description list"
  get_concept_mappings ::
    "wobject \<Rightarrow> wobject \<Rightarrow> description list \<Rightarrow> description list \<Rightarrow> mapping list"
  self_concept_mappings ::
    "wobject \<Rightarrow> wobject \<Rightarrow> description list \<Rightarrow> description list \<Rightarrow> mapping list"
  slippability_coin :: "nat \<Rightarrow> mapping \<Rightarrow> bool"
  is_distinguishing :: "mapping \<Rightarrow> bool"
  is_string_spanning_group :: "wobject \<Rightarrow> bool"
  plato_opposite_is_active :: bool
  are_all_opposite_concept_mappings :: "mapping list \<Rightarrow> bool"
  propose_correspondence :: "wobject \<Rightarrow> wobject \<Rightarrow> mapping list \<Rightarrow> bool \<Rightarrow> codelet list"
  chosen_description :: "wobject \<Rightarrow> description option"
  slippages :: "mapping list"
  target_objects :: "wobject list"
  inter_string_salience :: "wobject \<Rightarrow> int"
  select_list_position :: "int list \<Rightarrow> int"

subsection \<open>\<open>CorrespondenceBuilder\<close>\<close>

text \<open>
  \<open>run\<close> binds its second argument to the local \<open>flip_obj2\<close> and afterwards reads
  \<open>flip_object2\<close>, a name that is neither a local of \<open>run\<close> nor bound in the module
  (which binds \<open>toolbox\<close>, \<open>Codelet\<close>, \<open>nodes\<close> and the four codelet classes).
\<close>

definition flip_object2 :: "bool local" where
  "flip_object2 = Unbound"

text \<open>One call of \<open>self.fight_it_out\<close>: the call is recorded, the flip is read.\<close>

definition fight ::
  "env \<Rightarrow> action list \<Rightarrow> correspondence \<Rightarrow> int \<Rightarrow> wstructure list \<Rightarrow> int \<Rightarrow> action list \<times> bool"
where
  "fight self log c w1 opponents w2 =
     (log @ [Fight_it_out c w1 opponents w2], fight_it_out self log c w1 opponents w2)"

text \<open>The loop over the incompatible correspondences; \<open>False\<close> is the \<open>return\<close> in it.\<close>

fun fight_correspondences ::
  "env \<Rightarrow> correspondence \<Rightarrow> correspondence list \<Rightarrow> action list \<Rightarrow> action list \<times> bool"
where
  "fight_correspondences self c [] log = (log, True)"
| "fight_correspondences self c (i # rest) log =
     (case fight self log c (letter_span c) [A_correspondence i] (letter_span i) of
        (log1, True) \<Rightarrow> fight_correspondences self c rest log1
      | (log1, False) \<Rightarrow> (log1, False))"

text \<open>
  The fight against an incompatible bond at the edge of the strings and against the
  group of that bond. The locals \<open>incompatible_bond\<close> and \<open>incompatible_group\<close> are
  assigned inside the conditionals only.
\<close>

definition fight_bond ::
  "env \<Rightarrow> correspondence \<Rightarrow> action list \<Rightarrow>
   action list \<times> (unit, bond option local \<times> wgroup option local) flow"
where
  "fight_bond self c log =
     (if (leftmost_in_string (object1 c) \<or> rightmost_in_string (object1 c)) \<and>
         (leftmost_in_string (object2 c) \<or> rightmost_in_string (object2 c))
      then (case incompatible_bond self c of
              None \<Rightarrow> (log, Continues (Bound None, Unbound))
            | Some b \<Rightarrow>
                (case fight self log c 3 [A_bond b] 2 of
                   (log1, False) \<Rightarrow> (log1, Returns ())
                 | (log1, True) \<Rightarrow>
                     (case bond.group b of
                        None \<Rightarrow> (log1, Continues (Bound (Some b), Bound None))
                      | Some g \<Rightarrow>
                          (case fight self log1 c 1 [A_group g] 1 of
                             (log2, False) \<Rightarrow> (log2, Returns ())
                           | (log2, True) \<Rightarrow>
                               (log2, Continues (Bound (Some b), Bound (Some g)))))))
      else (log, Continues (Unbound, Unbound)))"

definition fight_flipped_group ::
  "env \<Rightarrow> correspondence \<Rightarrow> wgroup option \<Rightarrow> action list \<Rightarrow> action list \<times> (unit, unit) flow"
where
  "fight_flipped_group self c existing_object2_group log =
     (case flip_object2 of
        Unbound \<Rightarrow> (log, Raises NameError)
      | Bound flip \<Rightarrow>
          (if flip
           then (case fight self log c 1
                        [case existing_object2_group of None \<Rightarrow> Py_None | Some g \<Rightarrow> A_group g] 1 of
                   (log1, False) \<Rightarrow> (log1, Returns ())
                 | (log1, True) \<Rightarrow> (log1, Continues ()))
           else (log, Continues ())))"

definition fight_rule ::
  "env \<Rightarrow> correspondence \<Rightarrow> action list \<Rightarrow> action list \<times> (unit, wrule option) flow"
where
  "fight_rule self c log =
     (case incompatible_rule self c of
        None \<Rightarrow> (log, Continues None)
      | Some r \<Rightarrow>
          (case fight self log c 1 [A_rule (self_rule self)] 1 of
             (log1, False) \<Rightarrow> (log1, Returns ())
           | (log1, True) \<Rightarrow> (log1, Continues (Some r))))"

text \<open>
  The end of \<open>run\<close>, from the comment ``Break all incompatible structures'': the
  defeated structures are broken, a flipped group is rebuilt, the correspondence is
  built.
\<close>

definition break_and_build ::
  "env \<Rightarrow> correspondence \<Rightarrow> correspondence list \<Rightarrow> bond option local \<Rightarrow> wgroup option local \<Rightarrow>
   wgroup option \<Rightarrow> wrule option \<Rightarrow> action list \<Rightarrow> action list \<times> (py_error + unit)"
where
  "break_and_build self c incompatible_cs incompatible_b incompatible_g existing_object2_group
       incompatible_r log =
     (let log1 = log @ map Break_correspondence incompatible_cs in
      case incompatible_b of
        Unbound \<Rightarrow> (log1, Inl NameError)
      | Bound ib \<Rightarrow>
          (let log2 = log1 @ (case ib of None \<Rightarrow> [] | Some b \<Rightarrow> [Break_bond b]) in
           case incompatible_g of
             Unbound \<Rightarrow> (log2, Inl NameError)
           | Bound ig \<Rightarrow>
               (let log3 = log2 @ (case ig of None \<Rightarrow> [] | Some g \<Rightarrow> [Break_group g]);
                    log4 = log3 @
                      (case existing_object2_group of
                         None \<Rightarrow> []
                       | Some g \<Rightarrow>
                           Break_group g # map Break_bond (group_bonds self g) @
                           map Build_bond (object_bonds self (object2 c)) @
                           [Build_group (object2 c)]);
                    log5 = log4 @
                      (case incompatible_r of None \<Rightarrow> [] | Some _ \<Rightarrow> [Break_rule (self_rule self)])
                in (log5 @ [Build_correspondence c], Inr ()))))"

text \<open>\<open>run\<close> from the comment ``If any concept mappings are no longer relevant''.\<close>

definition fight_and_build ::
  "env \<Rightarrow> correspondence \<Rightarrow> wgroup option \<Rightarrow> action list \<times> (py_error + unit)"
where
  "fight_and_build self c existing_object2_group =
     (if list_ex (\<lambda>m. \<not> relevant m) (concept_mappings c) then ([], Inr ())
      else
        (let incompatible_cs = incompatible_corresondences self c in
         case fight_correspondences self c incompatible_cs [Delete_proposed_correspondence c] of
           (log1, False) \<Rightarrow> (log1, Inr ())
         | (log1, True) \<Rightarrow>
             (case fight_bond self c log1 of
                (log2, Raises e) \<Rightarrow> (log2, Inl e)
              | (log2, Returns _) \<Rightarrow> (log2, Inr ())
              | (log2, Continues (incompatible_b, incompatible_g)) \<Rightarrow>
                  (case fight_flipped_group self c existing_object2_group log2 of
                     (log3, Raises e) \<Rightarrow> (log3, Inl e)
                   | (log3, Returns _) \<Rightarrow> (log3, Inr ())
                   | (log3, Continues _) \<Rightarrow>
                       (case fight_rule self c log3 of
                          (log4, Raises e) \<Rightarrow> (log4, Inl e)
                        | (log4, Returns _) \<Rightarrow> (log4, Inr ())
                        | (log4, Continues incompatible_r) \<Rightarrow>
                            break_and_build self c incompatible_cs incompatible_b incompatible_g
                              existing_object2_group incompatible_r log4)))))"

text \<open>\<open>run\<close> from the comment ``If the correspondence exists''.\<close>

definition merge_or_build ::
  "env \<Rightarrow> correspondence \<Rightarrow> wgroup option \<Rightarrow> action list \<times> (py_error + unit)"
where
  "merge_or_build self c existing_object2_group =
     (case correspondence_present self c of
        Some existing_correspondence \<Rightarrow>
          ([Delete_proposed_correspondence c] @
           map (\<lambda>m. Add_activation (label m)) (concept_mappings c) @
           [Add_concept_mappings existing_correspondence
              (filter (\<lambda>m. \<not> mapping_present self c m) (concept_mappings c))],
           Inr ())
      | None \<Rightarrow> fight_and_build self c existing_object2_group)"

text \<open>
  \<open>CorrespondenceBuilder.run\<close>. The result is the list of mutating calls made and
  either the exception raised or the return (of \<open>None\<close>).
\<close>

definition CorrespondenceBuilder_run :: "env \<Rightarrow> action list \<times> (py_error + unit)" where
  "CorrespondenceBuilder_run self =
     (let c = fst (arguments self);
          flip_obj2 = snd (arguments self);
          flipped = flipped_version self (object2 c);
          existing_object2_group = is_group_present self flipped
      in if object1 c \<notin> set (objects self) then ([], Inr ())
         else if object2 c \<notin> set (objects self)
         then (case flip_object2 of
                 Unbound \<Rightarrow> ([], Inl NameError)
               | Bound flip \<Rightarrow>
                   (if \<not> (flip \<and> existing_object2_group \<noteq> None) then ([], Inr ())
                    else merge_or_build self c existing_object2_group))
         else merge_or_build self c existing_object2_group)"

subsection \<open>The two scouts\<close>

text \<open>
  A scout returns \<open>None\<close> (a bare \<open>return\<close>, the fizzle) or what
  \<open>propose_correspondence\<close> returns, the codelets to post. The scouts compare
  description types with the strings \<open>'plato_string_position_category'\<close>,
  \<open>'plato_bond_facet'\<close> and \<open>'plato_direction_category'\<close>; a node is its name here,
  so these are comparisons of names.
\<close>

definition plato_direction_category :: slipnode where
  "plato_direction_category = Slipnode ''plato_direction_category''"

definition propose ::
  "env \<Rightarrow> wobject \<Rightarrow> wobject \<Rightarrow> mapping list \<Rightarrow> action list \<times> (py_error + codelet list option)"
where
  "propose self obj1 obj2 mappings =
     ([Propose_correspondence obj1 obj2 mappings True],
      Inr (Some (propose_correspondence self obj1 obj2 mappings True)))"

text \<open>The loop of coin flips: \<open>possible\<close> ends \<open>True\<close> when some flip succeeded.\<close>

definition possible_by_slippability :: "env \<Rightarrow> mapping list \<Rightarrow> bool" where
  "possible_by_slippability self mappings =
     list_ex (\<lambda>(i, m). slippability_coin self i m) (enumerate 0 mappings)"

definition possible_opposite_mappings :: "mapping list \<Rightarrow> mapping list" where
  "possible_opposite_mappings distinguished =
     filter (\<lambda>m. name (description_type1 m) \<noteq> ''plato_string_position_category'' \<and>
                 name (description_type1 m) \<noteq> ''plato_bond_facet'') distinguished"

text \<open>\<open>CorrespondenceBottomUpScout.run\<close>.\<close>

definition CorrespondenceBottomUpScout_run ::
  "env \<Rightarrow> action list \<times> (py_error + codelet list option)"
where
  "CorrespondenceBottomUpScout_run self =
     (let obj1 = initial_choice self;
          obj2 = target_choice self
      in if spans_whole_string self obj1 \<noteq> spans_whole_string self obj2 then ([], Inr None)
         else
           (let mappings = get_concept_mappings self obj1 obj2
                             (relevant_descriptions self obj1) (relevant_descriptions self obj2)
            in if mappings = [] then ([], Inr None)
               else if \<not> possible_by_slippability self mappings then ([], Inr None)
               else
                 (let distinguished_mappings = filter (is_distinguishing self) mappings
                  in if distinguished_mappings = [] then ([], Inr None)
                     else
                       (let opposite_descriptions = map description_type1 mappings
                        in if is_string_spanning_group self obj1 \<and>
                              is_string_spanning_group self obj2 \<and>
                              \<not> plato_opposite_is_active self \<and>
                              are_all_opposite_concept_mappings self
                                (possible_opposite_mappings distinguished_mappings) \<and>
                              plato_direction_category \<in> set opposite_descriptions
                           then (let flipped = (flipped_version self obj2)
                                                 \<lparr>string_number := string_number obj2\<rparr>
                                 in propose self obj1 flipped
                                      (self_concept_mappings self obj1 flipped
                                         (relevant_descriptions self obj1)
                                         (relevant_descriptions self flipped)))
                           else propose self obj1 obj2 mappings))))"

text \<open>
  \<open>CorrespondenceImportantObjectScout.run\<close>. The loop over the slippages keeps the
  second descriptor of the last slippage whose first descriptor is the chosen one.
\<close>

fun slipped_descriptor :: "mapping list \<Rightarrow> slipnode \<Rightarrow> slipnode \<Rightarrow> slipnode" where
  "slipped_descriptor [] d1 d2 = d2"
| "slipped_descriptor (s # ss) d1 d2 =
     slipped_descriptor ss d1 (if descriptor1 s = d1 then descriptor2 s else d2)"

text \<open>An object enters the candidates once for each of its descriptions that matches.\<close>

definition object2_candidates :: "env \<Rightarrow> slipnode \<Rightarrow> wobject list" where
  "object2_candidates self object2_descriptor =
     concat (map (\<lambda>obj. map (\<lambda>_. obj)
                          (filter (\<lambda>d. descriptor d = object2_descriptor)
                             (relevant_descriptions self obj)))
               (target_objects self))"

text \<open>
  Indexing a Python list: \<open>xs[i]\<close> for \<open>-len(xs) <= i < 0\<close> is \<open>xs[len(xs) + i]\<close>, and
  an index outside \<open>-len(xs) .. len(xs) - 1\<close> raises.
\<close>

definition list_index :: "'a list \<Rightarrow> int \<Rightarrow> py_error + 'a" where
  "list_index xs i =
     (if 0 \<le> i \<and> i < int (length xs) then Inr (xs ! nat i)
      else if i < 0 \<and> - int (length xs) \<le> i then Inr (xs ! nat (int (length xs) + i))
      else Inl IndexError)"

text \<open>
  The object the scout chooses in the target string, when it gets that far: \<open>None\<close>
  when the scout has fizzled before (no description, no candidate).
\<close>

definition choose_object2 :: "env \<Rightarrow> (py_error + wobject) option" where
  "choose_object2 self =
     (case chosen_description self (relative_importance_choice self) of
        None \<Rightarrow> None
      | Some object1_description \<Rightarrow>
          (let object1_descriptor = descriptor object1_description;
               object2_descriptor =
                 slipped_descriptor (slippages self) object1_descriptor object1_descriptor;
               candidates = object2_candidates self object2_descriptor
           in if candidates = [] then None
              else Some (list_index candidates
                           (select_list_position self
                              (map (inter_string_salience self) candidates)))))"

text \<open>
  The scout binds \<open>distinguished_mappings\<close> and then loops over
  \<open>distinguishing_mappings\<close>, a name bound nowhere.
\<close>

definition distinguishing_mappings :: "mapping list local" where
  "distinguishing_mappings = Unbound"

definition CorrespondenceImportantObjectScout_run ::
  "env \<Rightarrow> action list \<times> (py_error + codelet list option)"
where
  "CorrespondenceImportantObjectScout_run self =
     (let obj1 = relative_importance_choice self
      in case choose_object2 self of
           None \<Rightarrow> ([], Inr None)
         | Some (Inl e) \<Rightarrow> ([], Inl e)
         | Some (Inr obj2) \<Rightarrow>
             (if spans_whole_string self obj1 \<noteq> spans_whole_string self obj2
              then ([], Inr None)
              else
                (let mappings = self_concept_mappings self obj1 obj2
                                  (relevant_descriptions self obj1)
                                  (relevant_descriptions self obj2)
                 in if mappings = [] then ([], Inr None)
                    else if \<not> possible_by_slippability self mappings then ([], Inr None)
                    else
                      (let distinguished_mappings = map (is_distinguishing self) mappings
                       in if distinguished_mappings = [] then ([], Inr None)
                          else
                            (case distinguishing_mappings of
                               Unbound \<Rightarrow> ([], Inl NameError)
                             | Bound distinguishing \<Rightarrow>
                                 (if is_string_spanning_group self obj1 \<and>
                                     is_string_spanning_group self obj2 \<and>
                                     are_all_opposite_concept_mappings self
                                       (possible_opposite_mappings distinguishing) \<and>
                                     ''plato_direction_category''
                                       \<in> set (map (\<lambda>m. name (description_type1 m)) mappings)
                                  then (let flipped = (flipped_version self obj2)
                                                        \<lparr>string_number := string_number obj2\<rparr>
                                        in propose self obj1 flipped
                                             (self_concept_mappings self obj1 flipped
                                                (relevant_descriptions self obj1)
                                                (relevant_descriptions self flipped)))
                                  else propose self obj1 obj2 mappings))))))"

section \<open>The string ``abc'' and its letters\<close>

definition abc :: wstring where
  "abc = \<lparr> length_str = 3 \<rparr>"

definition letter :: "nat \<Rightarrow> wstring \<Rightarrow> int \<Rightarrow> wobject" where
  "letter i s p =
     \<lparr> ident = i, obj_type = Letter, wobject.string = s, string_number = p,
       wobject.left_string_position = p, wobject.right_string_position = p,
       left_bond = None, right_bond = None, correspondence = None,
       leftmost_in_string = (p = 0), rightmost_in_string = (p = length_str s - 1) \<rparr>"

definition letter_a :: wobject where "letter_a = letter 0 abc 0"
definition letter_b :: wobject where "letter_b = letter 1 abc 1"
definition letter_c :: wobject where "letter_c = letter 2 abc 2"

definition xyz :: wstring where
  "xyz = \<lparr> length_str = 3 \<rparr>"

definition letter_x :: wobject where "letter_x = letter 3 xyz 0"

definition fresh :: structure_base where
  "fresh = \<lparr> init_proposal_level = 0, init_group = None \<rparr>"

definition successor :: slipnode where "successor = Slipnode ''successor''"
definition sameness :: slipnode where "sameness = Slipnode ''sameness''"
definition letter_category :: slipnode where "letter_category = Slipnode ''letter_category''"
definition length_facet :: slipnode where "length_facet = Slipnode ''length''"
definition plato_a :: slipnode where "plato_a = Slipnode ''a''"
definition plato_b :: slipnode where "plato_b = Slipnode ''b''"
definition plato_c :: slipnode where "plato_c = Slipnode ''c''"
definition plato_one :: slipnode where "plato_one = Slipnode ''one''"

text \<open>
  A correspondence between the \<open>a\<close> of ``abc'' and the \<open>x\<close> of ``xyz'', with the
  concept mapping leftmost to leftmost, and the workspaces without and with it.
\<close>

definition leftmost_mapping :: mapping where
  "leftmost_mapping =
     \<lparr> description_type1 = plato_string_position_category,
       description_type2 = plato_string_position_category,
       descriptor1 = Slipnode ''leftmost'', descriptor2 = Slipnode ''leftmost'',
       label = Slipnode ''identity'', relevant = True \<rparr>"

definition a_to_x :: correspondence where
  "a_to_x =
     \<lparr> corr_ident = 0,
       object1 = letter_a\<lparr>wobject.correspondence := Some 0\<rparr>,
       object2 = letter_x\<lparr>wobject.correspondence := Some 0\<rparr>,
       concept_mappings = [leftmost_mapping], letter_span = 2 \<rparr>"

definition no_structures :: heap where
  "no_structures = \<lparr> bond_at = (\<lambda>_. None), correspondence_at = (\<lambda>_. None) \<rparr>"

definition with_a_to_x :: heap where
  "with_a_to_x = \<lparr> bond_at = (\<lambda>_. None), correspondence_at = (\<lambda>_. None)(0 := Some a_to_x) \<rparr>"

text \<open>
  A group spanning the whole of ``abc'', for the scouts, and a proposed correspondence
  between the \<open>a\<close> and the \<open>x\<close> that carries a second concept mapping.
\<close>

definition group_abc :: wobject where
  "group_abc =
     \<lparr> ident = 4, obj_type = Group, wobject.string = abc, string_number = 3,
       wobject.left_string_position = 0, wobject.right_string_position = 2,
       left_bond = None, right_bond = None, correspondence = None,
       leftmost_in_string = True, rightmost_in_string = True \<rparr>"

definition first_mapping :: mapping where
  "first_mapping =
     \<lparr> description_type1 = Slipnode ''plato_letter_category'',
       description_type2 = Slipnode ''plato_letter_category'',
       descriptor1 = plato_a, descriptor2 = Slipnode ''x'',
       label = Slipnode ''plato_successor'', relevant = True \<rparr>"

definition proposed_a_to_x :: correspondence where
  "proposed_a_to_x =
     \<lparr> corr_ident = 1, object1 = letter_a, object2 = letter_x,
       concept_mappings = [leftmost_mapping, first_mapping], letter_span = 2 \<rparr>"

definition proposed_again :: correspondence where
  "proposed_again =
     \<lparr> corr_ident = 2,
       object1 = letter_a\<lparr>wobject.correspondence := Some 0\<rparr>,
       object2 = letter_x\<lparr>wobject.correspondence := Some 0\<rparr>,
       concept_mappings = [leftmost_mapping, first_mapping], letter_span = 2 \<rparr>"

definition leftmost_description :: description where
  "leftmost_description =
     \<lparr> description_type = plato_string_position_category,
       descriptor = Slipnode ''leftmost'' \<rparr>"

text \<open>
  A workspace in which nothing is built, nothing is incompatible, every coin flip and
  every fight succeeds, and \<open>mapping_present\<close> is membership in the correspondence's
  own concept mappings. An object spans its string when it reaches from position 0 to
  the last position.
\<close>

definition quiet :: env where
  "quiet =
     \<lparr> arguments = (proposed_a_to_x, False),
       objects = [letter_a, letter_b, letter_c, letter_x],
       flipped_version = (\<lambda>obj. obj),
       is_group_present = (\<lambda>_. None),
       correspondence_present = (\<lambda>_. None),
       mapping_present = (\<lambda>c m. m \<in> set (concept_mappings c)),
       incompatible_corresondences = (\<lambda>_. []),
       incompatible_bond = (\<lambda>_. None),
       incompatible_rule = (\<lambda>_. None),
       self_rule = \<lparr> rule_ident = 0 \<rparr>,
       fight_it_out = (\<lambda>_ _ _ _ _. True),
       group_bonds = (\<lambda>_. []),
       object_bonds = (\<lambda>_. []),
       initial_choice = letter_a,
       target_choice = letter_x,
       relative_importance_choice = letter_a,
       spans_whole_string =
         (\<lambda>obj. wobject.left_string_position obj = 0 \<and>
                wobject.right_string_position obj = length_str (wobject.string obj) - 1),
       relevant_descriptions = (\<lambda>_. [leftmost_description]),
       get_concept_mappings = (\<lambda>_ _ _ _. [leftmost_mapping]),
       self_concept_mappings = (\<lambda>_ _ _ _. [leftmost_mapping]),
       slippability_coin = (\<lambda>_ _. True),
       is_distinguishing = (\<lambda>_. True),
       is_string_spanning_group = (\<lambda>_. False),
       plato_opposite_is_active = False,
       are_all_opposite_concept_mappings = (\<lambda>_. False),
       propose_correspondence =
         (\<lambda>_ _ _ _. [\<lparr> codelet_name = ''correspondence_strength_tester'', urgency = 50 \<rparr>]),
       chosen_description = (\<lambda>_. Some leftmost_description),
       slippages = [],
       target_objects = [letter_x],
       inter_string_salience = (\<lambda>_. 100),
       select_list_position = (\<lambda>_. 0) \<rparr>"

text \<open>The scouts pick the whole-string group in ``abc'' and the letter \<open>x\<close>.\<close>

definition span_mismatch :: env where
  "span_mismatch = quiet\<lparr> initial_choice := group_abc, relative_importance_choice := group_abc \<rparr>"

text \<open>The correspondence between the \<open>a\<close> and the \<open>x\<close> is built already.\<close>

definition already_built :: env where
  "already_built =
     quiet\<lparr> arguments := (proposed_again, False),
            objects := [letter_a\<lparr>wobject.correspondence := Some 0\<rparr>, letter_b, letter_c,
                        letter_x\<lparr>wobject.correspondence := Some 0\<rparr>],
            correspondence_present := (\<lambda>_. Some a_to_x) \<rparr>"

text \<open>The actions that break or build a structure.\<close>

fun breaks_or_builds :: "action \<Rightarrow> bool" where
  "breaks_or_builds (Break_correspondence _) = True"
| "breaks_or_builds (Break_bond _) = True"
| "breaks_or_builds (Break_group _) = True"
| "breaks_or_builds (Break_rule _) = True"
| "breaks_or_builds (Build_bond _) = True"
| "breaks_or_builds (Build_group _) = True"
| "breaks_or_builds (Build_correspondence _) = True"
| "breaks_or_builds _ = False"

section \<open>Properties of bond construction and comparison\<close>

text \<open>
  C4: the direction category of a constructed bond is \<open>None\<close> exactly when the bond
  category is the one named \<open>sameness\<close>; for every other category it is \<open>left\<close>
  exactly when the left string position of \<open>from_object\<close> is smaller than that of
  \<open>to_object\<close>.
\<close>

theorem direction_category_iff:
  "(direction_category (Bond st f t cat fac fd td) = None \<longleftrightarrow> name cat = ''sameness'') \<and>
   (name cat \<noteq> ''sameness'' \<longrightarrow>
      (direction_category (Bond st f t cat fac fd td) = Some ''left'' \<longleftrightarrow>
         wobject.left_string_position f < wobject.left_string_position t))"
  by (simp add: Bond_def)

theorem direction_category_iff_witness:
  "name successor \<noteq> ''sameness'' \<and>
   direction_category (Bond fresh letter_a letter_b successor letter_category plato_a plato_b)
     = Some ''left'' \<and>
   direction_category (Bond fresh letter_b letter_a successor letter_category plato_b plato_a)
     \<noteq> Some ''left'' \<and>
   direction_category (Bond fresh letter_a letter_b sameness letter_category plato_a plato_a)
     = None"
  using direction_category_iff [of fresh letter_a letter_b successor letter_category plato_a plato_b]
    direction_category_iff [of fresh letter_b letter_a successor letter_category plato_b plato_a]
    direction_category_iff [of fresh letter_a letter_b sameness letter_category plato_a plato_a]
  by (simp add: successor_def sameness_def letter_a_def letter_b_def letter_def)

text \<open>
  C6: whichever endpoint is passed as \<open>from_object\<close> and whichever as \<open>to_object\<close>,
  the left string position of the bond's \<open>left_object\<close> is at most that of its
  \<open>right_object\<close>.
\<close>

theorem left_object_le_right_object:
  "wobject.left_string_position (left_object (Bond st f t cat fac fd td))
     \<le> wobject.left_string_position (right_object (Bond st f t cat fac fd td))"
  by (simp add: Bond_def)

text \<open>
  C10: two bonds with the same \<open>from_object\<close>, \<open>to_object\<close>, bond category and
  direction category compare equal, whatever their facets and endpoint descriptors are.
\<close>

theorem bond_eq_ignores_facet_and_descriptors:
  assumes "from_object b1 = from_object b2"
    and "to_object b1 = to_object b2"
    and "bond_category b1 = bond_category b2"
    and "direction_category b1 = direction_category b2"
  shows "bond_eq (b1\<lparr>bond_facet := fac1, from_object_descriptor := fd1, to_object_descriptor := td1\<rparr>)
                 (b2\<lparr>bond_facet := fac2, from_object_descriptor := fd2, to_object_descriptor := td2\<rparr>)"
  using assms by (simp add: bond_eq_def)

theorem bond_eq_ignores_facet_and_descriptors_witness:
  "bond_eq (Bond fresh letter_a letter_b successor letter_category plato_a plato_b)
           (Bond fresh letter_a letter_b successor length_facet plato_one plato_one) \<and>
   Bond fresh letter_a letter_b successor letter_category plato_a plato_b
     \<noteq> Bond fresh letter_a letter_b successor length_facet plato_one plato_one"
proof -
  let ?b1 = "Bond fresh letter_a letter_b successor letter_category plato_a plato_b"
  let ?b2 = "Bond fresh letter_a letter_b successor length_facet plato_one plato_one"
  have "bond_eq (?b1\<lparr>bond_facet := letter_category, from_object_descriptor := plato_a,
                     to_object_descriptor := plato_b\<rparr>)
                (?b2\<lparr>bond_facet := length_facet, from_object_descriptor := plato_one,
                     to_object_descriptor := plato_one\<rparr>)"
    by (rule bond_eq_ignores_facet_and_descriptors) (simp_all add: Bond_def)
  moreover have "?b1 \<noteq> ?b2"
    by (simp add: Bond_def letter_category_def length_facet_def)
  ultimately show ?thesis
    by (simp add: Bond_def)
qed

text \<open>
  C5, evaluated on the bond between the \<open>b\<close> and the \<open>c\<close> of ``abc'': its span ends
  at the last position of the string, and \<open>is_rightmost_in_string\<close> returns
  \<open>False\<close>. The recorded right position is the smaller of the two endpoints' right
  positions, and it is compared with \<open>1 - length\<close>.
\<close>

theorem is_rightmost_in_string_bc:
  "bond.right_string_position (Bond fresh letter_b letter_c successor letter_category plato_b plato_c) = 1 \<and>
   wobject.right_string_position letter_c = length_str abc - 1 \<and>
   \<not> is_rightmost_in_string (Bond fresh letter_b letter_c successor letter_category plato_b plato_c)"
  by (simp add: is_rightmost_in_string_def Bond_def letter_b_def letter_c_def letter_def abc_def)

text \<open>
  C7, evaluated on any bond that belongs to a group: \<open>happiness\<close> raises
  \<open>NameError\<close> instead of returning the group's total strength, and \<open>unhappiness\<close>
  raises with it.
\<close>

theorem happiness_in_group_raises:
  "happiness (b\<lparr>bond.group := Some g\<rparr>) = Inl NameError \<and>
   unhappiness (b\<lparr>bond.group := Some g\<rparr>) = Inl NameError"
  by (simp add: happiness_def unhappiness_def global_group_def)

text \<open>
  C2, evaluated on the bond between the \<open>a\<close> and the \<open>b\<close> of ``abc'', which is
  leftmost in its string. When the \<open>a\<close> has no correspondence the method leaves with
  a bare \<open>return\<close>: the result is \<open>None\<close>, not a list, and the block for the right
  end is not reached. When the \<open>a\<close> has a correspondence the method raises
  \<open>NameError\<close> at the misspelt name. Whatever the bond and the workspace, the method
  never returns a list with an element.
\<close>

theorem get_incompatible_correspondences_aborts:
  "get_incompatible_correspondences no_structures
     (Bond fresh letter_a letter_b successor letter_category plato_a plato_b) = Inr None \<and>
   get_incompatible_correspondences with_a_to_x
     (Bond fresh (letter_a\<lparr>wobject.correspondence := Some 0\<rparr>) letter_b
        successor letter_category plato_a plato_b) = Inl NameError \<and>
   (\<forall>h b. get_incompatible_correspondences h b = Inr None \<or>
          get_incompatible_correspondences h b = Inl NameError \<or>
          get_incompatible_correspondences h b = Inr (Some []))"
proof (intro conjI allI)
  show "get_incompatible_correspondences no_structures
     (Bond fresh letter_a letter_b successor letter_category plato_a plato_b) = Inr None"
    by (simp add: get_incompatible_correspondences_def is_leftmost_in_string_def Bond_def
        end_block_def deref_correspondence_def no_structures_def letter_a_def letter_b_def
        letter_def)
  show "get_incompatible_correspondences with_a_to_x
     (Bond fresh (letter_a\<lparr>wobject.correspondence := Some 0\<rparr>) letter_b
        successor letter_category plato_a plato_b) = Inl NameError"
    by (simp add: get_incompatible_correspondences_def is_leftmost_in_string_def Bond_def
        end_block_def deref_correspondence_def with_a_to_x_def letter_a_def letter_b_def
        letter_def string_position_cateogry_conept_mapping_def)
  fix h b
  have block: "end_block h b obj locals = Returns None \<or> end_block h b obj locals = Raises NameError"
    for obj locals
    by (simp add: end_block_def string_position_cateogry_conept_mapping_def split: option.split)
  show "get_incompatible_correspondences h b = Inr None \<or>
        get_incompatible_correspondences h b = Inl NameError \<or>
        get_incompatible_correspondences h b = Inr (Some [])"
    using block [of "left_object b" "([], Unbound)"] block [of "right_object b" "([], Unbound)"]
    by (auto simp add: get_incompatible_correspondences_def)
qed

section \<open>Properties of the codelets\<close>

text \<open>
  C9: a scout whose two chosen objects differ in spanning their whole string fizzles: it
  returns \<open>None\<close> and has called nothing that proposes, creates or posts. For the
  bottom-up scout the two objects are its two choices; for the important-object scout
  the second one is the candidate it selects, when it gets as far as selecting one.
\<close>

theorem scouts_fizzle_on_span_mismatch:
  "(spans_whole_string self (initial_choice self) \<noteq> spans_whole_string self (target_choice self)
      \<longrightarrow> CorrespondenceBottomUpScout_run self = ([], Inr None)) \<and>
   (choose_object2 self = Some (Inr obj2) \<and>
    spans_whole_string self (relative_importance_choice self) \<noteq> spans_whole_string self obj2
      \<longrightarrow> CorrespondenceImportantObjectScout_run self = ([], Inr None))"
  by (simp add: CorrespondenceBottomUpScout_run_def CorrespondenceImportantObjectScout_run_def)

theorem scouts_fizzle_on_span_mismatch_witness:
  "spans_whole_string span_mismatch (initial_choice span_mismatch)
     \<noteq> spans_whole_string span_mismatch (target_choice span_mismatch) \<and>
   CorrespondenceBottomUpScout_run span_mismatch = ([], Inr None) \<and>
   choose_object2 span_mismatch = Some (Inr letter_x) \<and>
   spans_whole_string span_mismatch (relative_importance_choice span_mismatch)
     \<noteq> spans_whole_string span_mismatch letter_x \<and>
   CorrespondenceImportantObjectScout_run span_mismatch = ([], Inr None)"
proof -
  have spans: "spans_whole_string span_mismatch group_abc"
    "\<not> spans_whole_string span_mismatch letter_x"
    by (simp_all add: span_mismatch_def quiet_def group_abc_def letter_x_def letter_def
        abc_def xyz_def)
  have choices: "initial_choice span_mismatch = group_abc"
    "target_choice span_mismatch = letter_x"
    "relative_importance_choice span_mismatch = group_abc"
    by (simp_all add: span_mismatch_def quiet_def)
  have chosen: "choose_object2 span_mismatch = Some (Inr letter_x)"
    by (simp add: choose_object2_def span_mismatch_def quiet_def object2_candidates_def
        list_index_def leftmost_description_def)
  show ?thesis
    using scouts_fizzle_on_span_mismatch [of span_mismatch letter_x] spans choices chosen
    by simp
qed

text \<open>
  When the two choices agree in spanning their strings and every coin flip succeeds, the
  bottom-up scout does propose: the \<open>a\<close> of ``abc'' and the \<open>x\<close> of ``xyz''.
\<close>

lemma bottom_up_scout_proposes:
  "CorrespondenceBottomUpScout_run quiet =
     ([Propose_correspondence letter_a letter_x [leftmost_mapping] True],
      Inr (Some [\<lparr> codelet_name = ''correspondence_strength_tester'', urgency = 50 \<rparr>]))"
  by (simp add: CorrespondenceBottomUpScout_run_def quiet_def propose_def
      possible_by_slippability_def letter_a_def letter_x_def letter_def abc_def xyz_def
      enumerate_eq_zip)

subsection \<open>The builder\<close>

lemma fight_correspondences_quiet:
  "filter breaks_or_builds log = [] \<Longrightarrow>
   filter breaks_or_builds (fst (fight_correspondences self c cs log)) = []"
  by (induction cs arbitrary: log) (simp_all add: fight_def split: bool.split)

lemma fight_bond_quiet:
  "filter breaks_or_builds log = [] \<Longrightarrow>
   filter breaks_or_builds (fst (fight_bond self c log)) = []"
  by (simp add: fight_bond_def fight_def split: option.split bool.split)

lemma fight_flipped_group_raises:
  "fight_flipped_group self c g log = (log, Raises NameError)"
  by (simp add: fight_flipped_group_def flip_object2_def)

lemma fight_and_build_quiet:
  "filter breaks_or_builds (fst (fight_and_build self c g)) = []"
proof -
  have start: "filter breaks_or_builds [Delete_proposed_correspondence c] = []"
    by simp
  obtain log1 won where f1:
    "fight_correspondences self c (incompatible_corresondences self c)
       [Delete_proposed_correspondence c] = (log1, won)"
    by (cases "fight_correspondences self c (incompatible_corresondences self c)
       [Delete_proposed_correspondence c]")
  have q1: "filter breaks_or_builds log1 = []"
    using fight_correspondences_quiet [OF start, of self c "incompatible_corresondences self c"] f1
    by simp
  obtain log2 fl where f2: "fight_bond self c log1 = (log2, fl)"
    by (cases "fight_bond self c log1")
  have q2: "filter breaks_or_builds log2 = []"
    using fight_bond_quiet [OF q1, of self c] f2 by simp
  show ?thesis
    using f1 f2 q1 q2
    by (cases won; cases fl)
       (simp_all add: fight_and_build_def fight_flipped_group_raises Let_def split: prod.split)
qed

lemma merge_or_build_quiet:
  "filter breaks_or_builds (fst (merge_or_build self c g)) = []"
  by (simp add: merge_or_build_def fight_and_build_quiet filter_map comp_def split: option.split)

text \<open>
  C1, evaluated on a proposed correspondence between the \<open>a\<close> of ``abc'' and the
  \<open>x\<close> of ``xyz'' that has no competitor at all, so that every required fight is won:
  the builder removes the proposal from the proposed correspondences and raises
  \<open>NameError\<close> at \<open>if flip_object2\<close>; the correspondence is not built. No run of the
  builder, whatever the workspace and the coin flips, breaks or builds a structure.
\<close>

theorem builder_never_builds:
  "CorrespondenceBuilder_run quiet =
     ([Delete_proposed_correspondence proposed_a_to_x], Inl NameError) \<and>
   (\<forall>self. filter breaks_or_builds (fst (CorrespondenceBuilder_run self)) = [])"
proof (intro conjI allI)
  show "CorrespondenceBuilder_run quiet =
     ([Delete_proposed_correspondence proposed_a_to_x], Inl NameError)"
    by (simp add: CorrespondenceBuilder_run_def quiet_def merge_or_build_def fight_and_build_def
        fight_bond_def fight_flipped_group_def flip_object2_def proposed_a_to_x_def
        leftmost_mapping_def first_mapping_def letter_a_def letter_b_def letter_c_def
        letter_x_def letter_def abc_def xyz_def)
  show "filter breaks_or_builds (fst (CorrespondenceBuilder_run self)) = []" for self
    by (simp add: CorrespondenceBuilder_run_def Let_def flip_object2_def merge_or_build_quiet)
qed

text \<open>
  C8, evaluated on a proposed correspondence between the \<open>a\<close> and the \<open>x\<close> that
  carries the mappings leftmost to leftmost and \<open>a\<close> to \<open>x\<close>, while the built
  correspondence between the same objects carries the first one only: the builder
  fights nothing and builds nothing, and it hands the empty list to
  \<open>add_concept_mappings\<close>, since it asks the proposed correspondence, not the built
  one, whether each mapping is present.
\<close>

theorem builder_merges_nothing:
  "CorrespondenceBuilder_run already_built =
     ([Delete_proposed_correspondence proposed_again,
       Add_activation (Slipnode ''identity''), Add_activation (Slipnode ''plato_successor''),
       Add_concept_mappings a_to_x []], Inr ()) \<and>
   first_mapping \<in> set (concept_mappings proposed_again) \<and>
   first_mapping \<notin> set (concept_mappings a_to_x)"
  by (simp add: CorrespondenceBuilder_run_def already_built_def quiet_def merge_or_build_def
      proposed_again_def a_to_x_def leftmost_mapping_def first_mapping_def
      plato_string_position_category_def)

end
